theory Spec2Isabelle
  imports Main
begin

section \<open>Inkwell: the document store and its workflows\<close>

text \<open>
  A shallow embedding of \<^verbatim>\<open>src/types.ts\<close>, of the state and handlers of the
  \<^verbatim>\<open>App\<close> component (\<^verbatim>\<open>src/App.tsx\<close>) and of the service functions they call
  (\<^verbatim>\<open>src/services/geminiService.ts\<close>). React state is one record, every handler is a
  function from the state to the new state, and what the handlers take from outside the
  program (the clock, the random number generator, the AI Gateway, \<^verbatim>\<open>JSON.parse\<close>,
  \<^verbatim>\<open>JSON.stringify\<close>) is a parameter.
\<close>

subsection \<open>Data model (src/types.ts)\<close>

record beat =
  b_id :: string
  b_title :: string
  b_description :: string
  b_draft :: "string option"
  b_completed :: "bool option"

record chapter_rec =
  ch_id :: string
  ch_title :: string
  ch_beats :: "beat list"

record lore_entry =
  lo_id :: string
  lo_category :: string
  lo_content :: string

record character =
  c_id :: string
  c_name :: string
  c_role :: string
  c_description :: string
  c_traits :: "string list"
  c_imageUrl :: "string option"
  c_rationale :: "string option"

record location =
  l_id :: string
  l_name :: string
  l_atmosphere :: string
  l_description :: string
  l_imageUrl :: "string option"
  l_rationale :: "string option"

record world_settings =
  genre :: string
  fantasyLevel :: int
  techLevel :: int
  tone :: string
  proseStyle :: string
  language :: string
  criticismLevel :: int

record suggested_beat =
  sb_chapterId :: string
  sb_title :: string
  sb_description :: string
  sb_rationale :: string

record chapter_flow =
  cf_chapterId :: string
  cf_suggestedBeatIds :: "string list"
  cf_reasoning :: string

record proposed_lore = lore_entry +
  pl_rationale :: string

record story_analysis =
  consistency :: string
  suggestions :: "string list"
  suggestedBeats :: "suggested_beat list"
  suggestedChapterFlow :: "chapter_flow list"
  proposedLore :: "proposed_lore list"
  proposedCharacters :: "character list"
  proposedLocations :: "location list"

subsection \<open>Strings\<close>

text \<open>The line feed of the template literals.\<close>

definition NL :: string where
  "NL = [CHR 0x0A]"

text \<open>The double quote inside the prompts.\<close>

definition DQ :: string where
  "DQ = [CHR 0x22]"

text \<open>\<^verbatim>\<open>Array.prototype.join\<close> on an array of strings.\<close>

fun join :: "string \<Rightarrow> string list \<Rightarrow> string" where
  "join sep [] = []"
| "join sep [x] = x"
| "join sep (x # y # ys) = x @ sep @ join sep (y # ys)"

text \<open>
  \<^verbatim>\<open>'c-' + Date.now()\<close> converts the clock reading to a string. \<^verbatim>\<open>Date.now()\<close> is
  a whole number of milliseconds since the epoch (a natural number for every clock set
  after 1970, and far below \<open>10\<^sup>2\<^sup>1\<close>), so the conversion is its decimal numeral.
\<close>

definition digit_char :: "nat \<Rightarrow> char" where
  "digit_char d = ''0123456789'' ! d"

fun number_toString :: "nat \<Rightarrow> string" where
  "number_toString n =
     (if n < 10 then [digit_char n]
      else number_toString (n div 10) @ [digit_char (n mod 10)])"

declare number_toString.simps [simp del]

subsection \<open>The state of the App component (src/App.tsx, lines 45-64)\<close>

datatype tab = Write | Plot | Characters | Locations | Lore | Analysis | Settings

datatype entity_type = CharacterT | LocationT

text \<open>
  The object the detection prompt asks the model for (found, type, name, description),
  as the code reads it: \<open>d_found\<close> is the truthiness of \<^verbatim>\<open>data.found\<close>, and \<open>d_id\<close> is
  an \<^verbatim>\<open>id\<close> field the model may have added (the value is untyped in the source).
\<close>

record detection =
  d_found :: bool
  d_type :: string
  d_name :: string
  d_description :: string
  d_id :: "string option"

record suggestion =
  sg_type :: string
  sg_data :: detection

record app_state =
  activeTab :: tab
  chapters :: "chapter_rec list"
  characters :: "character list"
  locations :: "location list"
  lore :: "lore_entry list"
  analysis :: "story_analysis option"
  loading :: bool
  scratchpadText :: string
  suggestedEntity :: "suggestion option"
  focusedEntity :: "(entity_type \<times> string) option"
  genId :: "string option"
  settings :: world_settings

text \<open>The initial values of the \<^verbatim>\<open>useState\<close> calls.\<close>

definition initial_state :: app_state where
  "initial_state =
     \<lparr>activeTab = Write, chapters = [], characters = [], locations = [], lore = [],
      analysis = None, loading = False, scratchpadText = [], suggestedEntity = None,
      focusedEntity = None, genId = None,
      settings = \<lparr>genre = ''Epic Fantasy'', fantasyLevel = 50, techLevel = 10,
        tone = ''Serious'', proseStyle = ''Lyrical'', language = ''English'',
        criticismLevel = 55\<rparr>\<rparr>"

subsection \<open>Creating entities (App.tsx, lines 290, 317, 341)\<close>

text \<open>
  Each handler reads the clock where the source calls \<^verbatim>\<open>Date.now()\<close>; \<open>addChapter\<close>
  calls it twice, first for the chapter and then for its seed beat.
\<close>

definition addChapter :: "nat \<Rightarrow> nat \<Rightarrow> app_state \<Rightarrow> app_state" where
  "addChapter now1 now2 s =
     s\<lparr>chapters := chapters s @
        [\<lparr>ch_id = ''ch-'' @ number_toString now1, ch_title = ''New Chapter'',
          ch_beats = [\<lparr>b_id = ''b-'' @ number_toString now2, b_title = ''Opening Beat'',
                       b_description = ''What happens next?'', b_draft = None,
                       b_completed = None\<rparr>]\<rparr>]\<rparr>"

definition addLocation :: "nat \<Rightarrow> app_state \<Rightarrow> app_state" where
  "addLocation now s =
     s\<lparr>locations := locations s @
        [\<lparr>l_id = ''l-'' @ number_toString now, l_name = ''New Region'',
          l_atmosphere = ''Vivid'', l_description = [], l_imageUrl = None,
          l_rationale = None\<rparr>]\<rparr>"

definition addCharacter :: "nat \<Rightarrow> app_state \<Rightarrow> app_state" where
  "addCharacter now s =
     s\<lparr>characters := characters s @
        [\<lparr>c_id = ''c-'' @ number_toString now, c_name = ''New Persona'',
          c_role = ''Protagonist'', c_description = [], c_traits = [], c_imageUrl = None,
          c_rationale = None\<rparr>]\<rparr>"

text \<open>
  A sequence of the three calls, each with the clock readings it makes, run from the
  left.
\<close>

datatype add_call = AddChapter nat nat | AddCharacter nat | AddLocation nat

fun add_step :: "app_state \<Rightarrow> add_call \<Rightarrow> app_state" where
  "add_step s (AddChapter now1 now2) = addChapter now1 now2 s"
| "add_step s (AddCharacter now) = addCharacter now s"
| "add_step s (AddLocation now) = addLocation now s"

definition run_adds :: "add_call list \<Rightarrow> app_state \<Rightarrow> app_state" where
  "run_adds calls s = foldl add_step s calls"

text \<open>The clock readings that became chapter, character and location ids.\<close>

fun chapter_clock :: "add_call \<Rightarrow> nat list" where
  "chapter_clock (AddChapter now1 now2) = [now1]"
| "chapter_clock _ = []"

fun character_clock :: "add_call \<Rightarrow> nat list" where
  "character_clock (AddCharacter now) = [now]"
| "character_clock _ = []"

fun location_clock :: "add_call \<Rightarrow> nat list" where
  "location_clock (AddLocation now) = [now]"
| "location_clock _ = []"

subsection \<open>The AI Gateway and the platform (src/services/geminiService.ts)\<close>

text \<open>
  A request is what the service functions pass to \<^verbatim>\<open>ai.models.generateContent\<close>: the
  model name, the contents and the parts of the configuration that vary (the response
  schemas are constants and are left out). The gateway is a function from the request
  to the outcome of the promise it returns. Of a response the code reads the
  \<^verbatim>\<open>text\<close> property and, for images, the \<^verbatim>\<open>inlineData\<close> of the parts of the first
  candidate.
\<close>

datatype contents = Prompt string | Parts "string list" | Turns "(string \<times> string) list"

record request =
  rq_model :: string
  rq_contents :: contents
  rq_systemInstruction :: "string option"
  rq_responseMimeType :: "string option"
  rq_aspectRatio :: "string option"

record gw_response =
  rs_text :: "string option"
  rs_inlineData :: "string option list"

datatype 'a promise = Rejected | Fulfilled 'a

type_synonym gateway = "request \<Rightarrow> gw_response promise"

datatype error = GatewayFailure | SyntaxError | TypeError

text \<open>
  \<^verbatim>\<open>JSON.parse\<close> is a parameter of the model. It throws a \<^verbatim>\<open>SyntaxError\<close>
  (\<open>Malformed\<close>), returns \<^verbatim>\<open>null\<close> (\<open>JsonNull\<close>, on which every property read throws a
  \<^verbatim>\<open>TypeError\<close>), or returns a value, taken at the type the caller reads it at.
\<close>

datatype 'a parsed = Malformed | JsonNull | JsonValue 'a

text \<open>\<^verbatim>\<open>response.text || '{}'\<close>: an absent or empty text is replaced.\<close>

definition or_empty_object :: "string option \<Rightarrow> string" where
  "or_empty_object t = (case t of None \<Rightarrow> ''{}'' | Some x \<Rightarrow> if x = [] then ''{}'' else x)"

definition getContext :: "world_settings \<Rightarrow> lore_entry list \<Rightarrow> string" where
  "getContext st lo =
     NL @ ''WORLD CONTEXT (LANGUAGE: '' @ language st @ ''):'' @ NL @
     ''- Genre: '' @ genre st @ NL @
     ''- Tone: '' @ tone st @ NL @
     ''- Prose Style: '' @ proseStyle st @ NL @
     ''- Lore: '' @ join NL (map (\<lambda>l. ''['' @ lo_category l @ '']: '' @ lo_content l) lo) @ NL"

text \<open>
  \<open>analyzePlot\<close> (lines 89-115). Its prompt is built from the settings, the lore and
  \<^verbatim>\<open>JSON.stringify(chapters)\<close>; the characters and locations it receives are not used.
\<close>

definition analyzePlot_request ::
  "(chapter_rec list \<Rightarrow> string) \<Rightarrow> chapter_rec list \<Rightarrow> character list \<Rightarrow> location list \<Rightarrow>
   world_settings \<Rightarrow> lore_entry list \<Rightarrow> request" where
  "analyzePlot_request stringify chs cs ls st lo =
     \<lparr>rq_model = ''gemini-3-pro-preview'',
      rq_contents = Prompt
        (''You are Inkwell. Analyze story for consistency and propose additions.'' @ NL @
         ''  '' @ getContext st lo @ NL @
         ''  CHAPTERS: '' @ stringify chs),
      rq_systemInstruction = None,
      rq_responseMimeType = Some ''application/json'',
      rq_aspectRatio = None\<rparr>"

definition analyzePlot ::
  "gateway \<Rightarrow> (chapter_rec list \<Rightarrow> string) \<Rightarrow> (string \<Rightarrow> story_analysis parsed) \<Rightarrow>
   chapter_rec list \<Rightarrow> character list \<Rightarrow> location list \<Rightarrow> world_settings \<Rightarrow> lore_entry list \<Rightarrow>
   error + story_analysis option" where
  "analyzePlot gw stringify parse chs cs ls st lo =
     (case gw (analyzePlot_request stringify chs cs ls st lo) of
        Rejected \<Rightarrow> Inl GatewayFailure
      | Fulfilled r \<Rightarrow>
          (case parse (or_empty_object (rs_text r)) of
             Malformed \<Rightarrow> Inl SyntaxError
           | JsonNull \<Rightarrow> Inr None
           | JsonValue a \<Rightarrow> Inr (Some a)))"

text \<open>\<open>chatWithInkwell\<close> (lines 117-126); the chapters it receives are not used.\<close>

definition chatWithInkwell_request ::
  "(string \<times> string) list \<Rightarrow> string \<Rightarrow> world_settings \<Rightarrow> lore_entry list \<Rightarrow>
   chapter_rec list \<Rightarrow> request" where
  "chatWithInkwell_request history message st lo chs =
     \<lparr>rq_model = ''gemini-3-pro-preview'',
      rq_contents = Turns (history @ [(''user'', message)]),
      rq_systemInstruction = Some (''You are Inkwell. '' @ getContext st lo),
      rq_responseMimeType = None,
      rq_aspectRatio = None\<rparr>"

definition chatWithInkwell ::
  "gateway \<Rightarrow> (string \<times> string) list \<Rightarrow> string \<Rightarrow> world_settings \<Rightarrow> lore_entry list \<Rightarrow>
   chapter_rec list \<Rightarrow> error + string option" where
  "chatWithInkwell gw history message st lo chs =
     (case gw (chatWithInkwell_request history message st lo chs) of
        Rejected \<Rightarrow> Inl GatewayFailure
      | Fulfilled r \<Rightarrow> Inr (rs_text r))"

text \<open>\<open>visualizeAsset\<close> (lines 128-139).\<close>

datatype entity = CharacterE character | LocationE location

fun entity_name :: "entity \<Rightarrow> string" where
  "entity_name (CharacterE c) = c_name c"
| "entity_name (LocationE l) = l_name l"

fun entity_description :: "entity \<Rightarrow> string" where
  "entity_description (CharacterE c) = c_description c"
| "entity_description (LocationE l) = l_description l"

definition visualizeAsset_request :: "entity_type \<Rightarrow> entity \<Rightarrow> world_settings \<Rightarrow> request" where
  "visualizeAsset_request ty e st =
     \<lparr>rq_model = ''gemini-2.5-flash-image'',
      rq_contents = Parts
        [if ty = CharacterT
         then ''Portrait: '' @ entity_name e @ ''. '' @ entity_description e
         else ''Setting: '' @ entity_name e @ ''. '' @ entity_description e],
      rq_systemInstruction = None,
      rq_responseMimeType = None,
      rq_aspectRatio = Some (if ty = CharacterT then ''3:4'' else ''16:9'')\<rparr>"

fun first_inlineData :: "string option list \<Rightarrow> string option" where
  "first_inlineData [] = None"
| "first_inlineData (Some d # ps) = Some (''data:image/png;base64,'' @ d)"
| "first_inlineData (None # ps) = first_inlineData ps"

definition visualizeAsset ::
  "gateway \<Rightarrow> entity_type \<Rightarrow> entity \<Rightarrow> world_settings \<Rightarrow> error + string option" where
  "visualizeAsset gw ty e st =
     (case gw (visualizeAsset_request ty e st) of
        Rejected \<Rightarrow> Inl GatewayFailure
      | Fulfilled r \<Rightarrow> Inr (first_inlineData (rs_inlineData r)))"

text \<open>\<open>extractFromText\<close> (lines 141-168), with the shape of its response schema.\<close>

record ext_beat =
  xb_title :: string
  xb_description :: string

record ext_chapter =
  xc_title :: string
  xc_beats :: "ext_beat list option"

record ext_character =
  xp_name :: string
  xp_role :: string
  xp_description :: string

record ext_location =
  xl_name :: string
  xl_atmosphere :: string
  xl_description :: string

record extraction =
  ex_chapters :: "ext_chapter list option"
  ex_characters :: "ext_character list option"
  ex_locations :: "ext_location list option"

definition extractFromText_request :: "string \<Rightarrow> world_settings \<Rightarrow> request" where
  "extractFromText_request text st =
     \<lparr>rq_model = ''gemini-3-pro-preview'',
      rq_contents = Prompt (''Extract chapters, beats, characters, and locations from: '' @ text),
      rq_systemInstruction = None,
      rq_responseMimeType = Some ''application/json'',
      rq_aspectRatio = None\<rparr>"

definition extractFromText ::
  "gateway \<Rightarrow> (string \<Rightarrow> extraction parsed) \<Rightarrow> string \<Rightarrow> world_settings \<Rightarrow>
   error + extraction option" where
  "extractFromText gw parse text st =
     (case gw (extractFromText_request text st) of
        Rejected \<Rightarrow> Inl GatewayFailure
      | Fulfilled r \<Rightarrow>
          (case parse (or_empty_object (rs_text r)) of
             Malformed \<Rightarrow> Inl SyntaxError
           | JsonNull \<Rightarrow> Inr None
           | JsonValue x \<Rightarrow> Inr (Some x)))"

subsection \<open>Handlers of the App component (src/App.tsx)\<close>

text \<open>
  What running a handler leaves behind: the requests it sent to the gateway, the
  exception with which its promise rejects (if any), and the state.
\<close>

record effect =
  issued :: "request list"
  thrown :: "error option"
  after :: app_state

text \<open>
  \<open>triggerVisual\<close> (lines 85-98). The entity is looked up and the request is built when
  the handler starts; the write-back runs when the promise settles, through functional
  updaters, so on the state of that moment. \<open>between\<close> stands for the handlers that ran
  while the request was in flight.
\<close>

definition find_entity :: "entity_type \<Rightarrow> string \<Rightarrow> app_state \<Rightarrow> entity option" where
  "find_entity ty i s =
     (if ty = CharacterT then map_option CharacterE (find (\<lambda>c. c_id c = i) (characters s))
      else map_option LocationE (find (\<lambda>l. l_id l = i) (locations s)))"

definition triggerVisual_resolve ::
  "entity_type \<Rightarrow> string \<Rightarrow> error + string option \<Rightarrow> app_state \<Rightarrow> error option \<times> app_state" where
  "triggerVisual_resolve ty i result s =
     (case result of
        Inl e \<Rightarrow> (Some e, s\<lparr>genId := None\<rparr>)
      | Inr url \<Rightarrow>
          (None,
           (case url of
              None \<Rightarrow> s
            | Some u \<Rightarrow>
                if u \<noteq> [] then
                  (if ty = CharacterT
                   then s\<lparr>characters :=
                          map (\<lambda>c. if c_id c = i then c\<lparr>c_imageUrl := Some u\<rparr> else c) (characters s)\<rparr>
                   else s\<lparr>locations :=
                          map (\<lambda>l. if l_id l = i then l\<lparr>l_imageUrl := Some u\<rparr> else l) (locations s)\<rparr>)
                else s)\<lparr>genId := None\<rparr>))"

definition triggerVisual ::
  "gateway \<Rightarrow> (app_state \<Rightarrow> app_state) \<Rightarrow> entity_type \<Rightarrow> string \<Rightarrow> app_state \<Rightarrow> effect" where
  "triggerVisual gw between ty i s =
     (case find_entity ty i s of
        None \<Rightarrow> \<lparr>issued = [], thrown = None, after = s\<rparr>
      | Some e \<Rightarrow>
          (let s1 = s\<lparr>genId := Some i\<rparr>;
               result = visualizeAsset gw ty e (settings s);
               (ex, s2) = triggerVisual_resolve ty i result (between s1)
           in \<lparr>issued = [visualizeAsset_request ty e (settings s)], thrown = ex, after = s2\<rparr>))"

text \<open>The Banish Entry button of the focused entity (lines 192-196).\<close>

definition banish :: "app_state \<Rightarrow> app_state" where
  "banish s =
     (case focusedEntity s of
        None \<Rightarrow> s
      | Some (ty, i) \<Rightarrow>
          (if ty = CharacterT
           then s\<lparr>characters := filter (\<lambda>c. c_id c \<noteq> i) (characters s)\<rparr>
           else s\<lparr>locations := filter (\<lambda>l. l_id l \<noteq> i) (locations s)\<rparr>)\<lparr>focusedEntity := None\<rparr>)"

text \<open>
  \<open>handleFileUpload\<close> (lines 100-125). \<open>rnd k\<close> is the text that string concatenation
  makes of the \<open>k\<close>-th \<^verbatim>\<open>Math.random()\<close> of the import. In the object literal of a
  chapter the id is evaluated before the beats. A chapter without \<^verbatim>\<open>beats\<close> makes
  \<^verbatim>\<open>ch.beats.map\<close> throw while the argument of \<^verbatim>\<open>setChapters\<close> is evaluated, before
  any state is set.
\<close>

fun rekey_beats :: "(nat \<Rightarrow> string) \<Rightarrow> nat \<Rightarrow> ext_beat list \<Rightarrow> beat list" where
  "rekey_beats rnd k [] = []"
| "rekey_beats rnd k (b # bs) =
     \<lparr>b_id = ''b-'' @ rnd k, b_title = xb_title b, b_description = xb_description b,
      b_draft = None, b_completed = None\<rparr> # rekey_beats rnd (Suc k) bs"

fun rekey_chapters ::
  "(nat \<Rightarrow> string) \<Rightarrow> nat \<Rightarrow> ext_chapter list \<Rightarrow> error + (chapter_rec list \<times> nat)" where
  "rekey_chapters rnd k [] = Inr ([], k)"
| "rekey_chapters rnd k (ch # chs) =
     (case xc_beats ch of
        None \<Rightarrow> Inl TypeError
      | Some bs \<Rightarrow>
          (case rekey_chapters rnd (Suc k + length bs) chs of
             Inl e \<Rightarrow> Inl e
           | Inr (rest, k') \<Rightarrow>
               Inr (\<lparr>ch_id = ''ch-'' @ rnd k, ch_title = xc_title ch,
                     ch_beats = rekey_beats rnd (Suc k) bs\<rparr> # rest, k')))"

fun rekey_characters :: "(nat \<Rightarrow> string) \<Rightarrow> nat \<Rightarrow> ext_character list \<Rightarrow> character list" where
  "rekey_characters rnd k [] = []"
| "rekey_characters rnd k (c # cs) =
     \<lparr>c_id = ''c-'' @ rnd k, c_name = xp_name c, c_role = xp_role c,
      c_description = xp_description c, c_traits = [], c_imageUrl = None,
      c_rationale = None\<rparr> # rekey_characters rnd (Suc k) cs"

fun rekey_locations :: "(nat \<Rightarrow> string) \<Rightarrow> nat \<Rightarrow> ext_location list \<Rightarrow> location list" where
  "rekey_locations rnd k [] = []"
| "rekey_locations rnd k (l # ls) =
     \<lparr>l_id = ''l-'' @ rnd k, l_name = xl_name l, l_atmosphere = xl_atmosphere l,
      l_description = xl_description l, l_imageUrl = None,
      l_rationale = None\<rparr> # rekey_locations rnd (Suc k) ls"

text \<open>Lines 110-118: the body of the \<^verbatim>\<open>try\<close> after the extraction has arrived.\<close>

definition importExtracted ::
  "(nat \<Rightarrow> string) \<Rightarrow> extraction option \<Rightarrow> app_state \<Rightarrow> error + app_state" where
  "importExtracted rnd extracted s =
     (case extracted of
        None \<Rightarrow> Inl TypeError
      | Some ex \<Rightarrow>
          (case (case ex_chapters ex of
                   None \<Rightarrow> Inr (chapters s, 0)
                 | Some chs \<Rightarrow> rekey_chapters rnd 0 chs) of
             Inl e \<Rightarrow> Inl e
           | Inr (chs', k) \<Rightarrow>
               (let s1 = s\<lparr>chapters := chs'\<rparr>;
                    s2 = (case ex_characters ex of
                            None \<Rightarrow> s1
                          | Some cs \<Rightarrow>
                              s1\<lparr>characters := characters s1 @ rekey_characters rnd k cs\<rparr>);
                    k2 = (case ex_characters ex of None \<Rightarrow> k | Some cs \<Rightarrow> k + length cs);
                    s3 = (case ex_locations ex of
                            None \<Rightarrow> s2
                          | Some ls \<Rightarrow>
                              s2\<lparr>locations := locations s2 @ rekey_locations rnd k2 ls\<rparr>)
                in Inr (s3\<lparr>activeTab := Write\<rparr>))))"

definition handleFileUpload ::
  "gateway \<Rightarrow> (string \<Rightarrow> extraction parsed) \<Rightarrow> (nat \<Rightarrow> string) \<Rightarrow> string option \<Rightarrow>
   app_state \<Rightarrow> effect" where
  "handleFileUpload gw parse rnd file s =
     (case file of
        None \<Rightarrow> \<lparr>issued = [], thrown = None, after = s\<rparr>
      | Some text \<Rightarrow>
          if text = [] then \<lparr>issued = [], thrown = None, after = s\<rparr>
          else
            (let s1 = s\<lparr>loading := True\<rparr>;
                 rq = extractFromText_request text (settings s)
             in case extractFromText gw parse text (settings s) of
                  Inl e \<Rightarrow> \<lparr>issued = [rq], thrown = Some e, after = s1\<lparr>loading := False\<rparr>\<rparr>
                | Inr extracted \<Rightarrow>
                    (case importExtracted rnd extracted s1 of
                       Inl e \<Rightarrow> \<lparr>issued = [rq], thrown = Some e, after = s1\<lparr>loading := False\<rparr>\<rparr>
                     | Inr s2 \<Rightarrow> \<lparr>issued = [rq], thrown = None, after = s2\<lparr>loading := False\<rparr>\<rparr>)))"

text \<open>
  \<open>runAnalysis\<close> (lines 127-141). The snapshot is computed and bound, and the call of
  \<open>analyzePlot\<close> takes the chapters, characters, locations, settings and lore.
\<close>

definition manuscriptSnapshot :: "app_state \<Rightarrow> string" where
  "manuscriptSnapshot s =
     (if length (chapters s) > 0
      then join (NL @ NL)
             (map (\<lambda>c. ''Chapter: '' @ ch_title c @ NL @
                        join NL (map (\<lambda>b. case b_draft b of None \<Rightarrow> [] | Some d \<Rightarrow> d) (ch_beats c)))
                (chapters s))
      else scratchpadText s)"

definition runAnalysis ::
  "gateway \<Rightarrow> (chapter_rec list \<Rightarrow> string) \<Rightarrow> (string \<Rightarrow> story_analysis parsed) \<Rightarrow>
   app_state \<Rightarrow> effect" where
  "runAnalysis gw stringify parse s =
     (let s1 = s\<lparr>loading := True\<rparr>;
          snapshot = manuscriptSnapshot s;
          rq = analyzePlot_request stringify (chapters s) (characters s) (locations s)
                 (settings s) (lore s)
      in case analyzePlot gw stringify parse (chapters s) (characters s) (locations s)
                (settings s) (lore s) of
           Inl e \<Rightarrow> \<lparr>issued = [rq], thrown = Some e, after = s1\<lparr>loading := False\<rparr>\<rparr>
         | Inr result \<Rightarrow>
             \<lparr>issued = [rq], thrown = None, after = s1\<lparr>analysis := result, loading := False\<rparr>\<rparr>)"

text \<open>
  \<open>sentinelCheck\<close> (lines 148-160): the body of its \<^verbatim>\<open>try\<close>, and the handler with
  the empty \<^verbatim>\<open>catch\<close> around it.
\<close>

definition sentinel_message :: "string \<Rightarrow> string" where
  "sentinel_message existingNames =
     ''Identify a new character or place from this text not in ['' @ existingNames @
     '']. JSON: {'' @ DQ @ ''found'' @ DQ @ '': true, '' @ DQ @ ''type'' @ DQ @ '': '' @
     DQ @ ''character'' @ DQ @ ''|'' @ DQ @ ''location'' @ DQ @ '', '' @
     DQ @ ''name'' @ DQ @ '': '' @ DQ @ ''...'' @ DQ @ '', '' @
     DQ @ ''description'' @ DQ @ '': '' @ DQ @ ''...'' @ DQ @ ''}''"

definition sentinel_request :: "app_state \<Rightarrow> request" where
  "sentinel_request s =
     (let existingNames = join '', '' (map c_name (characters s) @ map l_name (locations s))
      in chatWithInkwell_request [] (sentinel_message existingNames)
           (settings s) (lore s) (chapters s))"

definition sentinel_try ::
  "gateway \<Rightarrow> (string \<Rightarrow> detection parsed) \<Rightarrow> app_state \<Rightarrow> error + app_state" where
  "sentinel_try gw parse s =
     (let existingNames = join '', '' (map c_name (characters s) @ map l_name (locations s))
      in case chatWithInkwell gw [] (sentinel_message existingNames)
             (settings s) (lore s) (chapters s) of
           Inl e \<Rightarrow> Inl e
         | Inr res \<Rightarrow>
             (case parse (or_empty_object res) of
                Malformed \<Rightarrow> Inl SyntaxError
              | JsonNull \<Rightarrow> Inl TypeError
              | JsonValue data \<Rightarrow>
                  if d_found data
                  then Inr (s\<lparr>suggestedEntity := Some \<lparr>sg_type = d_type data, sg_data = data\<rparr>\<rparr>)
                  else Inr s))"

definition sentinelCheck ::
  "gateway \<Rightarrow> (string \<Rightarrow> detection parsed) \<Rightarrow> string \<Rightarrow> app_state \<Rightarrow> effect" where
  "sentinelCheck gw parse text s =
     (if length text > 50 \<and> length text mod 350 < 20
      then (case sentinel_try gw parse s of
              Inl e \<Rightarrow> \<lparr>issued = [sentinel_request s], thrown = None, after = s\<rparr>
            | Inr s' \<Rightarrow> \<lparr>issued = [sentinel_request s], thrown = None, after = s'\<rparr>)
      else \<lparr>issued = [], thrown = None, after = s\<rparr>)"

text \<open>
  \<open>updateBeatDraft\<close> (lines 143-146); \<open>set_draft\<close> is the updater it passes to
  \<^verbatim>\<open>setChapters\<close>. \<open>sentinelCheck\<close> reads the characters, locations, settings and
  lore, which the update of the chapters leaves as they were.
\<close>

definition set_draft :: "string \<Rightarrow> string \<Rightarrow> string \<Rightarrow> chapter_rec list \<Rightarrow> chapter_rec list" where
  "set_draft chapterId beatId newDraft prev =
     map (\<lambda>ch. if ch_id ch = chapterId
                then ch\<lparr>ch_beats :=
                         map (\<lambda>bt. if b_id bt = beatId then bt\<lparr>b_draft := Some newDraft\<rparr> else bt)
                           (ch_beats ch)\<rparr>
                else ch)
       prev"

definition updateBeatDraft ::
  "gateway \<Rightarrow> (string \<Rightarrow> detection parsed) \<Rightarrow> string \<Rightarrow> string \<Rightarrow> string \<Rightarrow> app_state \<Rightarrow> effect" where
  "updateBeatDraft gw parse chapterId beatId newDraft s =
     sentinelCheck gw parse newDraft
       (s\<lparr>chapters := set_draft chapterId beatId newDraft (chapters s)\<rparr>)"

text \<open>
  The Inscribe button (lines 273-277), rendered only while a suggestion is held.
\<close>

definition inscribe :: "nat \<Rightarrow> app_state \<Rightarrow> app_state" where
  "inscribe now s =
     (case suggestedEntity s of
        None \<Rightarrow> s
      | Some sg \<Rightarrow>
          (if sg_type sg = ''character''
           then s\<lparr>characters := characters s @
                  [\<lparr>c_id = ''c-'' @ number_toString now, c_name = d_name (sg_data sg),
                    c_role = ''Secondary'', c_description = d_description (sg_data sg),
                    c_traits = [], c_imageUrl = None, c_rationale = None\<rparr>]\<rparr>
           else s\<lparr>locations := locations s @
                  [\<lparr>l_id = ''l-'' @ number_toString now, l_name = d_name (sg_data sg),
                    l_atmosphere = ''Atmospheric'', l_description = d_description (sg_data sg),
                    l_imageUrl = None, l_rationale = None\<rparr>]\<rparr>)\<lparr>suggestedEntity := None\<rparr>)"

subsection \<open>Identifiers in the store\<close>

text \<open>
  Every id held in the store; the ids of what an import produced (all chapters and beats
  when the extraction has chapters, and the characters and locations behind the ones
  that were there); the number of \<^verbatim>\<open>Math.random()\<close> calls of a successful import; and
  the ids that the first \<open>n\<close> draws can become.
\<close>

definition all_ids :: "app_state \<Rightarrow> string list" where
  "all_ids s =
     map ch_id (chapters s) @ concat (map (\<lambda>ch. map b_id (ch_beats ch)) (chapters s)) @
     map c_id (characters s) @ map l_id (locations s)"

definition imported_ids :: "extraction \<Rightarrow> app_state \<Rightarrow> app_state \<Rightarrow> string list" where
  "imported_ids ex s s' =
     (case ex_chapters ex of
        None \<Rightarrow> []
      | Some chs \<Rightarrow>
          map ch_id (chapters s') @ concat (map (\<lambda>ch. map b_id (ch_beats ch)) (chapters s'))) @
     map c_id (drop (length (characters s)) (characters s')) @
     map l_id (drop (length (locations s)) (locations s'))"

fun chapter_draws :: "ext_chapter list \<Rightarrow> nat" where
  "chapter_draws [] = 0"
| "chapter_draws (ch # chs) =
     (case xc_beats ch of None \<Rightarrow> 0 | Some bs \<Rightarrow> Suc (length bs)) + chapter_draws chs"

definition draws :: "extraction \<Rightarrow> nat" where
  "draws ex =
     (case ex_chapters ex of None \<Rightarrow> 0 | Some chs \<Rightarrow> chapter_draws chs) +
     (case ex_characters ex of None \<Rightarrow> 0 | Some cs \<Rightarrow> length cs) +
     (case ex_locations ex of None \<Rightarrow> 0 | Some ls \<Rightarrow> length ls)"

definition random_ids :: "(nat \<Rightarrow> string) \<Rightarrow> nat \<Rightarrow> string list" where
  "random_ids rnd n =
     concat (map (\<lambda>k. [''ch-'' @ rnd k, ''b-'' @ rnd k, ''c-'' @ rnd k, ''l-'' @ rnd k]) [0..<n])"

subsection \<open>Example data\<close>

text \<open>A small store and gateway results, for evaluating the handlers.\<close>

definition example_store :: app_state where
  "example_store =
     initial_state
       \<lparr>chapters :=
          [\<lparr>ch_id = ''ch-1'', ch_title = ''Prologue'',
            ch_beats = [\<lparr>b_id = ''b-1'', b_title = ''Opening Beat'',
                         b_description = ''What happens next?'', b_draft = Some ''It rained.'',
                         b_completed = None\<rparr>]\<rparr>],
        characters :=
          [\<lparr>c_id = ''c-2'', c_name = ''Mira'', c_role = ''Protagonist'',
            c_description = ''A cartographer'', c_traits = [], c_imageUrl = None,
            c_rationale = None\<rparr>],
        locations :=
          [\<lparr>l_id = ''l-3'', l_name = ''Harbour'', l_atmosphere = ''Vivid'',
            l_description = [], l_imageUrl = None, l_rationale = None\<rparr>]\<rparr>"

definition thorne :: detection where
  "thorne =
     \<lparr>d_found = True, d_type = ''character'', d_name = ''Thorne'',
      d_description = ''A wandering smith'', d_id = Some ''npc-7''\<rparr>"

definition example_extraction :: extraction where
  "example_extraction =
     \<lparr>ex_chapters = Some [\<lparr>xc_title = ''The Forge'',
                            xc_beats = Some [\<lparr>xb_title = ''Arrival'', xb_description = ''Thorne arrives''\<rparr>]\<rparr>],
      ex_characters = Some [\<lparr>xp_name = ''Thorne'', xp_role = ''Secondary'',
                              xp_description = ''A wandering smith''\<rparr>],
      ex_locations = Some [\<lparr>xl_name = ''Forge'', xl_atmosphere = ''Smoky'',
                             xl_description = ''An old forge''\<rparr>]\<rparr>"

definition example_analysis :: story_analysis where
  "example_analysis =
     \<lparr>consistency = ''Consistent so far.'', suggestions = [''Name the harbour.''],
      suggestedBeats = [], suggestedChapterFlow = [], proposedLore = [],
      proposedCharacters = [], proposedLocations = []\<rparr>"

definition example_rnd :: "nat \<Rightarrow> string" where
  "example_rnd k = ''0.'' @ number_toString (Suc k)"

section \<open>Properties\<close>

subsection \<open>Editing a beat\<close>

lemma sentinelCheck_chapters:
  "chapters (after (sentinelCheck gw parse text s)) = chapters s"
  by (auto simp add: sentinelCheck_def sentinel_try_def Let_def
      split: sum.splits promise.splits parsed.splits if_splits)

lemma updateBeatDraft_chapters:
  "chapters (after (updateBeatDraft gw parse cid bid text s)) = set_draft cid bid text (chapters s)"
  by (simp add: updateBeatDraft_def sentinelCheck_chapters set_draft_def)

lemma map_if_absent:
  "k \<notin> f ` set xs \<Longrightarrow> map (\<lambda>x. if f x = k then g x else x) xs = xs"
  by (induction xs) auto

lemma map_if_distinct:
  assumes "distinct (map f xs)" and "i < length xs" and "f (xs ! i) = k"
  shows "map (\<lambda>x. if f x = k then g x else x) xs = xs[i := g (xs ! i)]"
proof (rule nth_equalityI)
  show "length (map (\<lambda>x. if f x = k then g x else x) xs) = length (xs[i := g (xs ! i)])"
    by simp
next
  fix j assume j: "j < length (map (\<lambda>x. if f x = k then g x else x) xs)"
  then have jl: "j < length xs" by simp
  show "map (\<lambda>x. if f x = k then g x else x) xs ! j = xs[i := g (xs ! i)] ! j"
  proof (cases "j = i")
    case True
    with assms show ?thesis by simp
  next
    case False
    have "f (xs ! j) \<noteq> k"
    proof
      assume "f (xs ! j) = k"
      then have "map f xs ! j = map f xs ! i" using assms jl by simp
      then have "j = i" using assms(1,2) jl by (simp add: nth_eq_iff_index_eq del: nth_map)
      with False show False by simp
    qed
    with False jl show ?thesis by simp
  qed
qed

lemma set_draft_unknown_chapter:
  "cid \<notin> ch_id ` set chs \<Longrightarrow> set_draft cid bid text chs = chs"
  unfolding set_draft_def by (rule map_if_absent)

lemma set_draft_unknown_beat:
  "(\<forall>ch \<in> set chs. ch_id ch = cid \<longrightarrow> bid \<notin> b_id ` set (ch_beats ch)) \<Longrightarrow>
   set_draft cid bid text chs = chs"
  unfolding set_draft_def
  by (induction chs) (auto simp add: map_if_absent)

lemma set_draft_pointwise:
  "length (set_draft cid bid text chs) = length chs \<and>
   (\<forall>i < length chs.
      ch_id (set_draft cid bid text chs ! i) = ch_id (chs ! i) \<and>
      ch_title (set_draft cid bid text chs ! i) = ch_title (chs ! i) \<and>
      length (ch_beats (set_draft cid bid text chs ! i)) = length (ch_beats (chs ! i)) \<and>
      (\<forall>j < length (ch_beats (chs ! i)).
         ch_beats (set_draft cid bid text chs ! i) ! j =
           (if ch_id (chs ! i) = cid \<and> b_id (ch_beats (chs ! i) ! j) = bid
            then (ch_beats (chs ! i) ! j)\<lparr>b_draft := Some text\<rparr>
            else ch_beats (chs ! i) ! j)))"
  unfolding set_draft_def by simp

lemma set_draft_distinct:
  assumes "distinct (map ch_id chs)" and "i < length chs" and "ch_id (chs ! i) = cid"
    and "distinct (map b_id (ch_beats (chs ! i)))" and "j < length (ch_beats (chs ! i))"
    and "b_id (ch_beats (chs ! i) ! j) = bid"
  shows "set_draft cid bid text chs =
           chs[i := (chs ! i)\<lparr>ch_beats := (ch_beats (chs ! i))
                  [j := (ch_beats (chs ! i) ! j)\<lparr>b_draft := Some text\<rparr>]\<rparr>]"
proof -
  have "set_draft cid bid text chs =
          chs[i := (chs ! i)\<lparr>ch_beats :=
                 map (\<lambda>bt. if b_id bt = bid then bt\<lparr>b_draft := Some text\<rparr> else bt)
                   (ch_beats (chs ! i))\<rparr>]"
    unfolding set_draft_def using assms(1-3) by (rule map_if_distinct)
  also have "map (\<lambda>bt. if b_id bt = bid then bt\<lparr>b_draft := Some text\<rparr> else bt) (ch_beats (chs ! i))
             = (ch_beats (chs ! i))[j := (ch_beats (chs ! i) ! j)\<lparr>b_draft := Some text\<rparr>]"
    using assms(4-6) by (rule map_if_distinct)
  finally show ?thesis .
qed

subsection \<open>Writing back an image\<close>

lemma find_None_absent: "(find P xs = None) = (\<forall>x \<in> set xs. \<not> P x)"
  by (induction xs) auto

lemma map_if_none:
  "\<forall>x \<in> set xs. f x \<noteq> k \<Longrightarrow> map (\<lambda>x. if f x = k then g x else x) xs = xs"
  by (induction xs) auto

lemma triggerVisual_resolve_stale:
  assumes "find_entity ty i s = None"
  shows "characters (snd (triggerVisual_resolve ty i result s)) = characters s
       \<and> locations (snd (triggerVisual_resolve ty i result s)) = locations s"
  using assms
  by (auto simp add: triggerVisual_resolve_def find_entity_def find_None_absent map_if_none
      split: sum.splits option.splits if_splits)

subsection \<open>Clock-derived identifiers\<close>

lemma digit_char_inj:
  assumes "a < 10" and "b < 10" and "digit_char a = digit_char b"
  shows "a = b"
proof -
  have d: "distinct ''0123456789''" by simp
  have "a < length ''0123456789''" "b < length ''0123456789''" using assms by simp_all
  with d assms(3) show ?thesis
    unfolding digit_char_def by (simp only: nth_eq_iff_index_eq)
qed

lemma number_toString_nonempty: "number_toString n \<noteq> []"
  by (subst number_toString.simps) simp

lemma number_toString_inj: "number_toString m = number_toString n \<Longrightarrow> m = n"
proof (induction m arbitrary: n rule: number_toString.induct)
  case (1 m)
  show ?case
  proof (cases "m < 10")
    case m: True
    show ?thesis
    proof (cases "n < 10")
      case True
      with m "1.prems" have "digit_char m = digit_char n"
        by (simp add: number_toString.simps[of m] number_toString.simps[of n])
      with m True show ?thesis by (rule digit_char_inj)
    next
      case False
      with m "1.prems" have "number_toString (n div 10) = []"
        by (simp add: number_toString.simps[of m] number_toString.simps[of n])
      then show ?thesis by (simp add: number_toString_nonempty)
    qed
  next
    case m: False
    show ?thesis
    proof (cases "n < 10")
      case True
      with m "1.prems" have "number_toString (m div 10) = []"
        by (simp add: number_toString.simps[of m] number_toString.simps[of n])
      then show ?thesis by (simp add: number_toString_nonempty)
    next
      case False
      with m "1.prems" have eq: "number_toString (m div 10) = number_toString (n div 10)"
        and dg: "digit_char (m mod 10) = digit_char (n mod 10)"
        by (simp_all add: number_toString.simps[of m] number_toString.simps[of n])
      from "1.IH"[OF m eq] have q: "m div 10 = n div 10" .
      have "m mod 10 < 10" "n mod 10 < 10" by simp_all
      then have r: "m mod 10 = n mod 10" using dg by (rule digit_char_inj)
      have "m = 10 * (m div 10) + m mod 10" by simp
      also have "\<dots> = 10 * (n div 10) + n mod 10" using q r by simp
      also have "\<dots> = n" by simp
      finally show ?thesis .
    qed
  qed
qed

lemma number_toString_eq_iff: "(number_toString m = number_toString n) = (m = n)"
  using number_toString_inj by blast

lemma run_adds_snoc: "run_adds (calls @ [c]) s = add_step (run_adds calls s) c"
  by (simp add: run_adds_def)

lemma run_adds_chapter_ids:
  "map ch_id (chapters (run_adds calls s)) =
     map ch_id (chapters s) @ map (\<lambda>t. ''ch-'' @ number_toString t) (concat (map chapter_clock calls))"
proof (induction calls rule: rev_induct)
  case Nil
  show ?case by (simp add: run_adds_def)
next
  case (snoc c calls)
  then show ?case
    by (cases c) (simp_all add: run_adds_snoc addChapter_def addCharacter_def addLocation_def)
qed

lemma run_adds_character_ids:
  "map c_id (characters (run_adds calls s)) =
     map c_id (characters s) @ map (\<lambda>t. ''c-'' @ number_toString t) (concat (map character_clock calls))"
proof (induction calls rule: rev_induct)
  case Nil
  show ?case by (simp add: run_adds_def)
next
  case (snoc c calls)
  then show ?case
    by (cases c) (simp_all add: run_adds_snoc addChapter_def addCharacter_def addLocation_def)
qed

lemma run_adds_location_ids:
  "map l_id (locations (run_adds calls s)) =
     map l_id (locations s) @ map (\<lambda>t. ''l-'' @ number_toString t) (concat (map location_clock calls))"
proof (induction calls rule: rev_induct)
  case Nil
  show ?case by (simp add: run_adds_def)
next
  case (snoc c calls)
  then show ?case
    by (cases c) (simp_all add: run_adds_snoc addChapter_def addCharacter_def addLocation_def)
qed

lemma run_adds_seed_beats:
  "list_all (\<lambda>ch. length (ch_beats ch) = 1) (chapters s) \<Longrightarrow>
   list_all (\<lambda>ch. length (ch_beats ch) = 1) (chapters (run_adds calls s))"
proof (induction calls rule: rev_induct)
  case Nil
  then show ?case by (simp add: run_adds_def)
next
  case (snoc c calls)
  then show ?case
    by (cases c) (simp_all add: run_adds_snoc addChapter_def addCharacter_def addLocation_def)
qed

lemma distinct_prefixed:
  "distinct (map (\<lambda>t. p @ number_toString t) ts) = distinct ts"
  by (simp add: distinct_map inj_on_def number_toString_eq_iff)

lemma len1_distinct: "length xs = Suc 0 \<Longrightarrow> distinct xs"
  by (cases xs) auto

subsection \<open>Identifiers of an import\<close>

lemma image_ivl_mono:
  fixes f :: "nat \<Rightarrow> 'b"
  shows "a' \<le> a \<Longrightarrow> b \<le> b' \<Longrightarrow> f ` {a..<b} \<subseteq> f ` {a'..<b'}"
  by (rule image_mono) (simp add: ivl_subset)

lemma random_ids_mem:
  fixes rnd :: "nat \<Rightarrow> string"
  shows "(\<lambda>k. ''ch-'' @ rnd k) ` {0..<n} \<subseteq> set (random_ids rnd n)"
    and "(\<lambda>k. ''b-'' @ rnd k) ` {0..<n} \<subseteq> set (random_ids rnd n)"
    and "(\<lambda>k. ''c-'' @ rnd k) ` {0..<n} \<subseteq> set (random_ids rnd n)"
    and "(\<lambda>k. ''l-'' @ rnd k) ` {0..<n} \<subseteq> set (random_ids rnd n)"
  unfolding random_ids_def by auto

lemma rekey_beats_ids:
  "map b_id (rekey_beats rnd k bs) = map (\<lambda>j. ''b-'' @ rnd j) [k..<k + length bs]"
  by (induction bs arbitrary: k) (simp_all add: upt_conv_Cons del: upt_Suc)

lemma rekey_characters_ids:
  "map c_id (rekey_characters rnd k cs) = map (\<lambda>j. ''c-'' @ rnd j) [k..<k + length cs]"
  by (induction cs arbitrary: k) (simp_all add: upt_conv_Cons del: upt_Suc)

lemma rekey_locations_ids:
  "map l_id (rekey_locations rnd k ls) = map (\<lambda>j. ''l-'' @ rnd j) [k..<k + length ls]"
  by (induction ls arbitrary: k) (simp_all add: upt_conv_Cons del: upt_Suc)

lemma rekey_chapters_ids:
  "rekey_chapters rnd k chs = Inr (chs', k') \<Longrightarrow>
   k' = k + chapter_draws chs \<and>
   set (map ch_id chs') \<subseteq> (\<lambda>j. ''ch-'' @ rnd j) ` {k..<k'} \<and>
   set (concat (map (\<lambda>ch. map b_id (ch_beats ch)) chs')) \<subseteq> (\<lambda>j. ''b-'' @ rnd j) ` {k..<k'}"
proof (induction chs arbitrary: k chs')
  case Nil
  then show ?case by simp
next
  case (Cons ch chs)
  from Cons.prems obtain bs rest where bs: "xc_beats ch = Some bs"
    and rest: "rekey_chapters rnd (Suc k + length bs) chs = Inr (rest, k')"
    and chs': "chs' = \<lparr>ch_id = ''ch-'' @ rnd k, ch_title = xc_title ch,
                     ch_beats = rekey_beats rnd (Suc k) bs\<rparr> # rest"
    by (auto split: option.splits sum.splits)
  from Cons.IH[OF rest] have k': "k' = Suc k + length bs + chapter_draws chs"
    and r1: "set (map ch_id rest) \<subseteq> (\<lambda>j. ''ch-'' @ rnd j) ` {Suc k + length bs..<k'}"
    and r2: "set (concat (map (\<lambda>ch. map b_id (ch_beats ch)) rest))
               \<subseteq> (\<lambda>j. ''b-'' @ rnd j) ` {Suc k + length bs..<k'}"
    by blast+
  have le1: "k \<le> Suc k + length bs" and le2: "k \<le> Suc k" and le3: "Suc k + length bs \<le> k'"
    using k' by simp_all
  have a: "k' = k + chapter_draws (ch # chs)" using k' bs by simp
  have b1: "set (map ch_id rest) \<subseteq> (\<lambda>j. ''ch-'' @ rnd j) ` {k..<k'}"
    using r1 image_ivl_mono[OF le1 order_refl] by (rule subset_trans)
  have b2: "''ch-'' @ rnd k \<in> (\<lambda>j. ''ch-'' @ rnd j) ` {k..<k'}"
    by (rule imageI) (simp add: k')
  have b: "set (map ch_id chs') \<subseteq> (\<lambda>j. ''ch-'' @ rnd j) ` {k..<k'}"
    unfolding chs' using b1 b2 by simp
  have c1: "set (concat (map (\<lambda>ch. map b_id (ch_beats ch)) rest))
              \<subseteq> (\<lambda>j. ''b-'' @ rnd j) ` {k..<k'}"
    using r2 image_ivl_mono[OF le1 order_refl] by (rule subset_trans)
  have "set (map b_id (rekey_beats rnd (Suc k) bs))
          = (\<lambda>j. ''b-'' @ rnd j) ` {Suc k..<Suc k + length bs}"
    by (simp only: rekey_beats_ids set_map set_upt)
  then have c2: "set (map b_id (rekey_beats rnd (Suc k) bs)) \<subseteq> (\<lambda>j. ''b-'' @ rnd j) ` {k..<k'}"
    using image_ivl_mono[OF le2 le3, of "\<lambda>j. ''b-'' @ rnd j"] by simp
  have c: "set (concat (map (\<lambda>ch. map b_id (ch_beats ch)) chs'))
             \<subseteq> (\<lambda>j. ''b-'' @ rnd j) ` {k..<k'}"
    unfolding chs' using c1 c2 by simp
  from a b c show ?case by blast
qed

lemma importExtracted_ids:
  assumes "importExtracted rnd (Some ex) s = Inr s'"
  shows "set (imported_ids ex s s') \<subseteq> set (random_ids rnd (draws ex))"
proof -
  define k where "k = (case ex_chapters ex of None \<Rightarrow> 0 | Some chs \<Rightarrow> chapter_draws chs)"
  define k2 where "k2 = (case ex_characters ex of None \<Rightarrow> k | Some cs \<Rightarrow> k + length cs)"
  define n where "n = draws ex"
  have kn: "k \<le> n" "k2 \<le> n"
    and k2n: "\<And>ls. ex_locations ex = Some ls \<Longrightarrow> k2 + length ls \<le> n"
    and kcn: "\<And>cs. ex_characters ex = Some cs \<Longrightarrow> k + length cs \<le> n"
    unfolding k_def k2_def n_def draws_def by (auto split: option.splits)
  from assms obtain chs' k0 where
    ch: "(case ex_chapters ex of None \<Rightarrow> Inr (chapters s, 0) | Some chs \<Rightarrow> rekey_chapters rnd 0 chs)
           = Inr (chs', k0)"
    and chap: "chapters s' = chs'"
    and char: "characters s' = characters s @
                 (case ex_characters ex of None \<Rightarrow> [] | Some cs \<Rightarrow> rekey_characters rnd k0 cs)"
    and loc: "locations s' = locations s @
                 (case ex_locations ex of None \<Rightarrow> [] | Some ls \<Rightarrow>
                    rekey_locations rnd (case ex_characters ex of None \<Rightarrow> k0 | Some cs \<Rightarrow> k0 + length cs) ls)"
    by (auto simp add: importExtracted_def Let_def split: sum.splits option.splits)
  have k0: "k0 = k"
  proof (cases "ex_chapters ex")
    case None
    with ch show ?thesis by (simp add: k_def)
  next
    case (Some chs)
    with ch have "rekey_chapters rnd 0 chs = Inr (chs', k0)" by simp
    from rekey_chapters_ids[OF this] Some show ?thesis by (simp add: k_def)
  qed
  have a: "set (case ex_chapters ex of None \<Rightarrow> []
             | Some chs \<Rightarrow> map ch_id (chapters s') @
                 concat (map (\<lambda>ch. map b_id (ch_beats ch)) (chapters s')))
           \<subseteq> set (random_ids rnd n)"
  proof (cases "ex_chapters ex")
    case None
    then show ?thesis by simp
  next
    case (Some chs)
    with ch have "rekey_chapters rnd 0 chs = Inr (chs', k0)" by simp
    from rekey_chapters_ids[OF this]
    have "set (map ch_id chs') \<subseteq> (\<lambda>j. ''ch-'' @ rnd j) ` {0..<k0}"
      and "set (concat (map (\<lambda>ch. map b_id (ch_beats ch)) chs')) \<subseteq> (\<lambda>j. ''b-'' @ rnd j) ` {0..<k0}"
      by blast+
    then have x1: "set (map ch_id chs') \<subseteq> (\<lambda>j. ''ch-'' @ rnd j) ` {0..<k}"
      and x2: "set (concat (map (\<lambda>ch. map b_id (ch_beats ch)) chs')) \<subseteq> (\<lambda>j. ''b-'' @ rnd j) ` {0..<k}"
      unfolding k0 .
    have "set (map ch_id chs') \<subseteq> set (random_ids rnd n)"
      by (rule subset_trans[OF subset_trans[OF x1 image_ivl_mono[OF order_refl kn(1)]]
            random_ids_mem(1)])
    moreover have "set (concat (map (\<lambda>ch. map b_id (ch_beats ch)) chs')) \<subseteq> set (random_ids rnd n)"
      by (rule subset_trans[OF subset_trans[OF x2 image_ivl_mono[OF order_refl kn(1)]]
            random_ids_mem(2)])
    ultimately have "set (map ch_id chs') \<subseteq> set (random_ids rnd n)"
      and "set (concat (map (\<lambda>ch. map b_id (ch_beats ch)) chs')) \<subseteq> set (random_ids rnd n)"
      by this+
    with Some chap show ?thesis by simp
  qed
  have b: "set (map c_id (drop (length (characters s)) (characters s'))) \<subseteq> set (random_ids rnd n)"
  proof (cases "ex_characters ex")
    case None
    then show ?thesis unfolding char by simp
  next
    case (Some cs)
    have "set (map c_id (rekey_characters rnd k cs)) = (\<lambda>j. ''c-'' @ rnd j) ` {k..<k + length cs}"
      by (simp only: rekey_characters_ids set_map set_upt)
    then have "set (map c_id (rekey_characters rnd k cs)) \<subseteq> (\<lambda>j. ''c-'' @ rnd j) ` {k..<k + length cs}"
      by (rule equalityD1)
    then have "set (map c_id (rekey_characters rnd k cs)) \<subseteq> set (random_ids rnd n)"
      by (rule subset_trans[OF subset_trans[OF _ image_ivl_mono[OF le0 kcn[OF Some]]]
            random_ids_mem(3)])
    with Some show ?thesis unfolding char k0 by simp
  qed
  have c: "set (map l_id (drop (length (locations s)) (locations s'))) \<subseteq> set (random_ids rnd n)"
  proof (cases "ex_locations ex")
    case None
    then show ?thesis unfolding loc by simp
  next
    case (Some ls)
    have "set (map l_id (rekey_locations rnd k2 ls)) = (\<lambda>j. ''l-'' @ rnd j) ` {k2..<k2 + length ls}"
      by (simp only: rekey_locations_ids set_map set_upt)
    then have "set (map l_id (rekey_locations rnd k2 ls)) \<subseteq> (\<lambda>j. ''l-'' @ rnd j) ` {k2..<k2 + length ls}"
      by (rule equalityD1)
    then have "set (map l_id (rekey_locations rnd k2 ls)) \<subseteq> set (random_ids rnd n)"
      by (rule subset_trans[OF subset_trans[OF _ image_ivl_mono[OF le0 k2n[OF Some]]]
            random_ids_mem(4)])
    with Some show ?thesis unfolding loc k0 k2_def by simp
  qed
  from a b c show ?thesis
    unfolding imported_ids_def n_def by simp
qed

section \<open>The claims\<close>

subsection \<open>The Incidental-Entity Detector\<close>

text \<open>
  The request recorded as issued is the one the gateway is asked: a run of the detector
  depends on the gateway through its answer to that request only, and not at all when
  the sampling condition fails.
\<close>

lemma sentinelCheck_gateway_at_request:
  "gw (sentinel_request s) = gw' (sentinel_request s) \<Longrightarrow>
   sentinelCheck gw parse txt s = sentinelCheck gw' parse txt s"
  by (simp add: sentinelCheck_def sentinel_try_def sentinel_request_def chatWithInkwell_def Let_def)

lemma sentinelCheck_not_sampled:
  "\<not> (50 < length txt \<and> length txt mod 350 < 20) \<Longrightarrow>
   sentinelCheck gw parse txt s = \<lparr>issued = [], thrown = None, after = s\<rparr>"
  by (auto simp add: sentinelCheck_def)

lemma sentinelCheck_issued:
  "issued (sentinelCheck gw parse txt s) =
     (if 50 < length txt \<and> length txt mod 350 < 20 then [sentinel_request s] else [])"
  by (simp add: sentinelCheck_def split: sum.splits)

text \<open>
  C5: for every text, \<open>sentinelCheck\<close> sends a detection request if and only if the
  length of the text is greater than 50 and the length modulo 350 is less than 20. So
  it sends none for a text of length at most 50, none for length 370 (370 mod 350 = 20),
  and one for length 369 (369 mod 350 = 19).
\<close>

theorem sentinelCheck_fires_iff:
  "(issued (sentinelCheck gw parse txt s) \<noteq> []) = (50 < length txt \<and> length txt mod 350 < 20)
   \<and> (length txt \<le> 50 \<longrightarrow> issued (sentinelCheck gw parse txt s) = [])
   \<and> issued (sentinelCheck gw parse (replicate 370 c) s) = []
   \<and> issued (sentinelCheck gw parse (replicate 369 c) s) = [sentinel_request s]"
  by (simp add: sentinelCheck_issued)

theorem sentinelCheck_fires_iff_witness:
  "length (replicate 50 (CHR ''a'')) \<le> 50
   \<and> issued (sentinelCheck (\<lambda>_. Rejected) (\<lambda>_. Malformed) (replicate 50 (CHR ''a'')) example_store) = []
   \<and> issued (sentinelCheck (\<lambda>_. Rejected) (\<lambda>_. Malformed) (replicate 369 (CHR ''a'')) example_store) \<noteq> []"
  using sentinelCheck_fires_iff[of "\<lambda>_. Rejected" "\<lambda>_. Malformed"
      "replicate 50 (CHR ''a'')" example_store "CHR ''a''"]
  by simp

text \<open>
  C10: when the gateway call of the detector rejects, or the response is not valid JSON,
  or the parsed value is \<^verbatim>\<open>null\<close> or has no truthy \<^verbatim>\<open>found\<close>, \<open>sentinelCheck\<close>
  leaves the state (and so the suggestion slot) as it was and throws nothing.
\<close>

theorem sentinelCheck_fail_silent:
  assumes "gw (sentinel_request s) = Rejected \<or>
           (\<exists>r. gw (sentinel_request s) = Fulfilled r \<and>
                (parse (or_empty_object (rs_text r)) = Malformed \<or>
                 parse (or_empty_object (rs_text r)) = JsonNull \<or>
                 (\<exists>d. parse (or_empty_object (rs_text r)) = JsonValue d \<and> \<not> d_found d)))"
  shows "after (sentinelCheck gw parse txt s) = s \<and> thrown (sentinelCheck gw parse txt s) = None"
  using assms
  by (auto simp add: sentinelCheck_def sentinel_try_def sentinel_request_def chatWithInkwell_def Let_def
      split: sum.splits promise.splits parsed.splits)

theorem sentinelCheck_fail_silent_witness:
  "after (sentinelCheck (\<lambda>_. Rejected) (\<lambda>_. JsonValue thorne) (replicate 369 (CHR ''a'')) example_store)
     = example_store
   \<and> thrown (sentinelCheck (\<lambda>_. Rejected) (\<lambda>_. JsonValue thorne) (replicate 369 (CHR ''a'')) example_store)
     = None
   \<and> after (sentinelCheck (\<lambda>_. Fulfilled \<lparr>rs_text = Some ''Thorne?'', rs_inlineData = []\<rparr>)
        (\<lambda>_. Malformed) (replicate 369 (CHR ''a'')) example_store) = example_store
   \<and> after (sentinelCheck (\<lambda>_. Fulfilled \<lparr>rs_text = None, rs_inlineData = []\<rparr>)
        (\<lambda>t. if t = ''{}'' then JsonValue (thorne\<lparr>d_found := False\<rparr>) else JsonValue thorne)
        (replicate 369 (CHR ''a'')) example_store) = example_store"
  using sentinelCheck_fail_silent[of "\<lambda>_. Rejected" example_store "\<lambda>_. JsonValue thorne"
      "replicate 369 (CHR ''a'')"]
    sentinelCheck_fail_silent[of "\<lambda>_. Fulfilled \<lparr>rs_text = Some ''Thorne?'', rs_inlineData = []\<rparr>"
      example_store "\<lambda>_. Malformed" "replicate 369 (CHR ''a'')"]
    sentinelCheck_fail_silent[of "\<lambda>_. Fulfilled \<lparr>rs_text = None, rs_inlineData = []\<rparr>"
      example_store
      "\<lambda>t. if t = ''{}'' then JsonValue (thorne\<lparr>d_found := False\<rparr>) else JsonValue thorne"
      "replicate 369 (CHR ''a'')"]
  by (simp add: or_empty_object_def)

subsection \<open>Accepting a suggestion\<close>

text \<open>
  C6: accepting a held character suggestion appends exactly one character to the
  characters, with an id made from the clock at that moment (whatever id the model
  proposed, the result is the same), the name and description of the suggestion, the
  role Secondary and no traits; the suggestion slot is empty afterwards, and the
  characters that were there, the locations and the chapters are unchanged.
\<close>

theorem inscribe_character:
  assumes "suggestedEntity s = Some sg" and "sg_type sg = ''character''"
  shows "characters (inscribe now s) = characters s @
           [\<lparr>c_id = ''c-'' @ number_toString now, c_name = d_name (sg_data sg),
             c_role = ''Secondary'', c_description = d_description (sg_data sg),
             c_traits = [], c_imageUrl = None, c_rationale = None\<rparr>]
         \<and> suggestedEntity (inscribe now s) = None
         \<and> locations (inscribe now s) = locations s
         \<and> chapters (inscribe now s) = chapters s
         \<and> inscribe now (s\<lparr>suggestedEntity := Some (sg\<lparr>sg_data := (sg_data sg)\<lparr>d_id := proposed\<rparr>\<rparr>)\<rparr>)
             = inscribe now s"
  using assms by (simp add: inscribe_def)

theorem inscribe_character_witness:
  "characters (inscribe 1699
      (example_store\<lparr>suggestedEntity := Some \<lparr>sg_type = ''character'', sg_data = thorne\<rparr>\<rparr>))
     = characters example_store @
         [\<lparr>c_id = ''c-1699'', c_name = ''Thorne'', c_role = ''Secondary'',
           c_description = ''A wandering smith'', c_traits = [], c_imageUrl = None,
           c_rationale = None\<rparr>]
   \<and> suggestedEntity (inscribe 1699
      (example_store\<lparr>suggestedEntity := Some \<lparr>sg_type = ''character'', sg_data = thorne\<rparr>\<rparr>)) = None"
  using inscribe_character[where s = "example_store\<lparr>suggestedEntity := Some \<lparr>sg_type = ''character'', sg_data = thorne\<rparr>\<rparr>"
      and sg = "\<lparr>sg_type = ''character'', sg_data = thorne\<rparr>" and now = 1699]
  by (simp add: thorne_def number_toString.simps digit_char_def)

subsection \<open>Image write-back\<close>

text \<open>
  C8: when an image request for the entity with id \<open>i\<close> is in flight and that entity
  has been deleted from its collection by the time the response arrives, the
  write-back changes no character and no location: both collections are as the
  handlers that ran in between left them.
\<close>

theorem triggerVisual_stale_write:
  assumes "find_entity ty i s = Some e"
    and "find_entity ty i (between (s\<lparr>genId := Some i\<rparr>)) = None"
  shows "characters (after (triggerVisual gw between ty i s)) = characters (between (s\<lparr>genId := Some i\<rparr>))
       \<and> locations (after (triggerVisual gw between ty i s)) = locations (between (s\<lparr>genId := Some i\<rparr>))"
  using assms(1) triggerVisual_resolve_stale[OF assms(2)]
  by (simp add: triggerVisual_def Let_def case_prod_beta)

theorem triggerVisual_stale_write_witness:
  "characters (after (triggerVisual (\<lambda>_. Fulfilled \<lparr>rs_text = None, rs_inlineData = [Some ''iVBORw0KGgo'']\<rparr>)
      banish CharacterT ''c-2'' (example_store\<lparr>focusedEntity := Some (CharacterT, ''c-2'')\<rparr>))) = []
   \<and> locations (after (triggerVisual (\<lambda>_. Fulfilled \<lparr>rs_text = None, rs_inlineData = [Some ''iVBORw0KGgo'']\<rparr>)
      banish CharacterT ''c-2'' (example_store\<lparr>focusedEntity := Some (CharacterT, ''c-2'')\<rparr>)))
     = locations example_store"
  using triggerVisual_stale_write[where ty = CharacterT and i = "''c-2''"
      and s = "example_store\<lparr>focusedEntity := Some (CharacterT, ''c-2'')\<rparr>" and between = banish
      and e = "CharacterE \<lparr>c_id = ''c-2'', c_name = ''Mira'', c_role = ''Protagonist'',
            c_description = ''A cartographer'', c_traits = [], c_imageUrl = None,
            c_rationale = None\<rparr>"
      and gw = "\<lambda>_. Fulfilled \<lparr>rs_text = None, rs_inlineData = [Some ''iVBORw0KGgo'']\<rparr>"]
  by (simp add: find_entity_def banish_def example_store_def initial_state_def)

subsection \<open>Editing a beat's draft\<close>

text \<open>
  C9: \<open>updateBeatDraft\<close> with a chapter id that no chapter has, or with a beat id that
  no beat of the chapters with that id has, leaves the chapters unchanged. In every
  case the chapters keep their number, ids, titles and numbers of beats, and each beat
  is as it was except that a beat with the given id in a chapter with the given id has
  its draft replaced by the text. Where the ids are unique this is the update of the
  one identified beat.
\<close>

theorem updateBeatDraft_chapters_effect:
  "(cid \<notin> ch_id ` set (chapters s) \<longrightarrow>
      chapters (after (updateBeatDraft gw parse cid bid txt s)) = chapters s)
   \<and> ((\<forall>ch \<in> set (chapters s). ch_id ch = cid \<longrightarrow> bid \<notin> b_id ` set (ch_beats ch)) \<longrightarrow>
      chapters (after (updateBeatDraft gw parse cid bid txt s)) = chapters s)
   \<and> length (chapters (after (updateBeatDraft gw parse cid bid txt s))) = length (chapters s)
   \<and> (\<forall>i < length (chapters s).
        ch_id (chapters (after (updateBeatDraft gw parse cid bid txt s)) ! i) = ch_id (chapters s ! i) \<and>
        ch_title (chapters (after (updateBeatDraft gw parse cid bid txt s)) ! i) = ch_title (chapters s ! i) \<and>
        length (ch_beats (chapters (after (updateBeatDraft gw parse cid bid txt s)) ! i))
          = length (ch_beats (chapters s ! i)) \<and>
        (\<forall>j < length (ch_beats (chapters s ! i)).
           ch_beats (chapters (after (updateBeatDraft gw parse cid bid txt s)) ! i) ! j =
             (if ch_id (chapters s ! i) = cid \<and> b_id (ch_beats (chapters s ! i) ! j) = bid
              then (ch_beats (chapters s ! i) ! j)\<lparr>b_draft := Some txt\<rparr>
              else ch_beats (chapters s ! i) ! j)))
   \<and> (\<forall>i j. distinct (map ch_id (chapters s)) \<and> i < length (chapters s) \<and>
          ch_id (chapters s ! i) = cid \<and> distinct (map b_id (ch_beats (chapters s ! i))) \<and>
          j < length (ch_beats (chapters s ! i)) \<and> b_id (ch_beats (chapters s ! i) ! j) = bid \<longrightarrow>
        chapters (after (updateBeatDraft gw parse cid bid txt s)) =
          (chapters s)[i := (chapters s ! i)\<lparr>ch_beats := (ch_beats (chapters s ! i))
                 [j := (ch_beats (chapters s ! i) ! j)\<lparr>b_draft := Some txt\<rparr>]\<rparr>])"
proof -
  have a: "cid \<notin> ch_id ` set (chapters s) \<longrightarrow> set_draft cid bid txt (chapters s) = chapters s"
    using set_draft_unknown_chapter by blast
  have b: "(\<forall>ch \<in> set (chapters s). ch_id ch = cid \<longrightarrow> bid \<notin> b_id ` set (ch_beats ch)) \<longrightarrow>
           set_draft cid bid txt (chapters s) = chapters s"
    using set_draft_unknown_beat by blast
  have d: "\<forall>i j. distinct (map ch_id (chapters s)) \<and> i < length (chapters s) \<and>
          ch_id (chapters s ! i) = cid \<and> distinct (map b_id (ch_beats (chapters s ! i))) \<and>
          j < length (ch_beats (chapters s ! i)) \<and> b_id (ch_beats (chapters s ! i) ! j) = bid \<longrightarrow>
        set_draft cid bid txt (chapters s) =
          (chapters s)[i := (chapters s ! i)\<lparr>ch_beats := (ch_beats (chapters s ! i))
                 [j := (ch_beats (chapters s ! i) ! j)\<lparr>b_draft := Some txt\<rparr>]\<rparr>]"
    using set_draft_distinct by blast
  from a b d set_draft_pointwise[of cid bid "txt" "chapters s"] show ?thesis
    unfolding updateBeatDraft_chapters by blast
qed

theorem updateBeatDraft_chapters_effect_witness:
  "chapters (after (updateBeatDraft (\<lambda>_. Rejected) (\<lambda>_. Malformed) ''ch-9'' ''b-1'' ''The rain stopped.''
      example_store)) = chapters example_store
   \<and> chapters (after (updateBeatDraft (\<lambda>_. Rejected) (\<lambda>_. Malformed) ''ch-1'' ''b-9'' ''The rain stopped.''
      example_store)) = chapters example_store
   \<and> chapters (after (updateBeatDraft (\<lambda>_. Rejected) (\<lambda>_. Malformed) ''ch-1'' ''b-1'' ''The rain stopped.''
      example_store)) =
       [\<lparr>ch_id = ''ch-1'', ch_title = ''Prologue'',
         ch_beats = [\<lparr>b_id = ''b-1'', b_title = ''Opening Beat'',
                      b_description = ''What happens next?'', b_draft = Some ''The rain stopped.'',
                      b_completed = None\<rparr>]\<rparr>]"
  using updateBeatDraft_chapters_effect[of "''ch-9''" example_store "\<lambda>_. Rejected" "\<lambda>_. Malformed"
      "''b-1''" "''The rain stopped.''"]
    updateBeatDraft_chapters_effect[of "''ch-1''" example_store "\<lambda>_. Rejected" "\<lambda>_. Malformed"
      "''b-9''" "''The rain stopped.''"]
    updateBeatDraft_chapters_effect[of "''ch-1''" example_store "\<lambda>_. Rejected" "\<lambda>_. Malformed"
      "''b-1''" "''The rain stopped.''"]
  by (simp add: example_store_def initial_state_def)

subsection \<open>Identifiers from the clock\<close>

text \<open>
  C1 (amended): for every sequence of \<open>addChapter\<close>, \<open>addCharacter\<close> and \<open>addLocation\<close>
  calls run from the initial state, the ids of a collection are pairwise different
  exactly when the clock readings of the calls that added to it are pairwise different;
  the seed beat is the only beat of its chapter, so the beat ids of every chapter are
  pairwise different.
\<close>

theorem add_ids_unique_iff_clock_distinct:
  "distinct (map ch_id (chapters (run_adds calls initial_state)))
     = distinct (concat (map chapter_clock calls))
   \<and> distinct (map c_id (characters (run_adds calls initial_state)))
     = distinct (concat (map character_clock calls))
   \<and> distinct (map l_id (locations (run_adds calls initial_state)))
     = distinct (concat (map location_clock calls))
   \<and> (\<forall>ch \<in> set (chapters (run_adds calls initial_state)). distinct (map b_id (ch_beats ch)))"
proof -
  have "list_all (\<lambda>ch. length (ch_beats ch) = 1) (chapters (run_adds calls initial_state))"
    by (rule run_adds_seed_beats) (simp add: initial_state_def)
  then have "\<forall>ch \<in> set (chapters (run_adds calls initial_state)). length (map b_id (ch_beats ch)) = 1"
    by (simp add: list_all_iff)
  then have b: "\<forall>ch \<in> set (chapters (run_adds calls initial_state)). distinct (map b_id (ch_beats ch))"
    by (simp add: len1_distinct)
  have i: "chapters initial_state = []" "characters initial_state = []" "locations initial_state = []"
    by (simp_all add: initial_state_def)
  have c1: "distinct (map ch_id (chapters (run_adds calls initial_state)))
              = distinct (concat (map chapter_clock calls))"
    by (simp only: run_adds_chapter_ids i list.map append_Nil distinct_prefixed)
  have c2: "distinct (map c_id (characters (run_adds calls initial_state)))
              = distinct (concat (map character_clock calls))"
    by (simp only: run_adds_character_ids i list.map append_Nil distinct_prefixed)
  have c3: "distinct (map l_id (locations (run_adds calls initial_state)))
              = distinct (concat (map location_clock calls))"
    by (simp only: run_adds_location_ids i list.map append_Nil distinct_prefixed)
  from c1 c2 c3 b show ?thesis by blast
qed

theorem add_ids_unique_iff_clock_distinct_witness:
  "distinct (map ch_id (chapters (run_adds
      [AddChapter 1699 1699, AddCharacter 1699, AddChapter 1700 1700, AddCharacter 1702, AddLocation 1699]
      initial_state)))
   \<and> distinct (map c_id (characters (run_adds
      [AddChapter 1699 1699, AddCharacter 1699, AddChapter 1700 1700, AddCharacter 1702, AddLocation 1699]
      initial_state)))
   \<and> distinct (map b_id (ch_beats (hd (chapters (run_adds
      [AddChapter 1699 1699, AddCharacter 1699, AddChapter 1700 1700, AddCharacter 1702, AddLocation 1699]
      initial_state)))))"
proof -
  have "hd (chapters (run_adds
      [AddChapter 1699 1699, AddCharacter 1699, AddChapter 1700 1700, AddCharacter 1702, AddLocation 1699]
      initial_state)) \<in> set (chapters (run_adds
      [AddChapter 1699 1699, AddCharacter 1699, AddChapter 1700 1700, AddCharacter 1702, AddLocation 1699]
      initial_state))"
    by (simp add: run_adds_def addChapter_def addCharacter_def addLocation_def initial_state_def)
  with add_ids_unique_iff_clock_distinct[of
      "[AddChapter 1699 1699, AddCharacter 1699, AddChapter 1700 1700, AddCharacter 1702, AddLocation 1699]"]
  show ?thesis by simp
qed

text \<open>
  The claim as stated fails: two \<open>addCharacter\<close> calls within one millisecond give two
  characters the same id.
\<close>

theorem add_ids_collide_counterexample:
  "map c_id (characters (run_adds [AddCharacter 1699, AddCharacter 1699] initial_state))
     = [''c-1699'', ''c-1699'']
   \<and> \<not> distinct (map c_id (characters (run_adds [AddCharacter 1699, AddCharacter 1699] initial_state)))"
  by (simp add: run_adds_def addCharacter_def initial_state_def number_toString.simps digit_char_def)

subsection \<open>The analysis workflow\<close>

text \<open>
  C2 (amended): when the \<open>analyzePlot\<close> call of \<open>runAnalysis\<close> fails (the gateway
  rejects, or the response does not parse), the stored analysis is unchanged, the
  state is the one before with the loading flag cleared, and the failure leaves
  \<open>runAnalysis\<close> as the rejection of its promise.
\<close>

theorem runAnalysis_failure_keeps_analysis:
  assumes "gw (analyzePlot_request stringify (chapters s) (characters s) (locations s)
                 (settings s) (lore s)) = Rejected \<or>
           (\<exists>r. gw (analyzePlot_request stringify (chapters s) (characters s) (locations s)
                      (settings s) (lore s)) = Fulfilled r \<and>
                parse (or_empty_object (rs_text r)) = Malformed)"
  shows "analysis (after (runAnalysis gw stringify parse s)) = analysis s
       \<and> after (runAnalysis gw stringify parse s) = s\<lparr>loading := False\<rparr>
       \<and> (thrown (runAnalysis gw stringify parse s) = Some GatewayFailure \<or>
          thrown (runAnalysis gw stringify parse s) = Some SyntaxError)"
  using assms by (auto simp add: runAnalysis_def analyzePlot_def Let_def)

theorem runAnalysis_failure_keeps_analysis_witness:
  "analysis (after (runAnalysis (\<lambda>_. Rejected) (\<lambda>_. ''[]'') (\<lambda>_. Malformed)
      (example_store\<lparr>analysis := Some example_analysis\<rparr>))) = Some example_analysis
   \<and> analysis (after (runAnalysis (\<lambda>_. Fulfilled \<lparr>rs_text = Some ''not json'', rs_inlineData = []\<rparr>)
      (\<lambda>_. ''[]'') (\<lambda>_. Malformed)
      (example_store\<lparr>analysis := Some example_analysis\<rparr>))) = Some example_analysis"
  using runAnalysis_failure_keeps_analysis[of "\<lambda>_. Rejected" "\<lambda>_. ''[]''"
      "example_store\<lparr>analysis := Some example_analysis\<rparr>" "\<lambda>_. Malformed"]
    runAnalysis_failure_keeps_analysis[of "\<lambda>_. Fulfilled \<lparr>rs_text = Some ''not json'', rs_inlineData = []\<rparr>"
      "\<lambda>_. ''[]''" "example_store\<lparr>analysis := Some example_analysis\<rparr>" "\<lambda>_. Malformed"]
  by simp

text \<open>
  The claim as stated fails: the \<^verbatim>\<open>try\<close> of \<open>runAnalysis\<close> has a \<^verbatim>\<open>finally\<close> and
  no \<^verbatim>\<open>catch\<close>, so a failed call is thrown past it.
\<close>

theorem runAnalysis_failure_propagates_counterexample:
  "thrown (runAnalysis (\<lambda>_. Rejected) (\<lambda>_. ''[]'') (\<lambda>_. Malformed)
      (example_store\<lparr>analysis := Some example_analysis\<rparr>)) = Some GatewayFailure
   \<and> thrown (runAnalysis (\<lambda>_. Fulfilled \<lparr>rs_text = Some ''not json'', rs_inlineData = []\<rparr>)
      (\<lambda>_. ''[]'') (\<lambda>_. Malformed)
      (example_store\<lparr>analysis := Some example_analysis\<rparr>)) = Some SyntaxError"
  by (simp add: runAnalysis_def analyzePlot_def Let_def)

text \<open>
  The one request of a run is the one the gateway is asked, and the run depends on the
  gateway through its answer to that request only.
\<close>

lemma runAnalysis_gateway_at_request:
  "gw (analyzePlot_request stringify (chapters s) (characters s) (locations s) (settings s) (lore s))
     = gw' (analyzePlot_request stringify (chapters s) (characters s) (locations s) (settings s) (lore s))
   \<Longrightarrow> runAnalysis gw stringify parse s = runAnalysis gw' stringify parse s"
  by (simp add: runAnalysis_def analyzePlot_def Let_def)

lemma runAnalysis_issued:
  "issued (runAnalysis gw stringify parse s) =
     [analyzePlot_request stringify (chapters s) (characters s) (locations s) (settings s) (lore s)]"
  by (simp add: runAnalysis_def Let_def split: sum.splits)

text \<open>
  C4: the snapshot of a store without chapters is the scratchpad text, and the request
  that \<open>runAnalysis\<close> sends is the same for two stores that differ in the scratchpad
  only; the scratchpad has no influence on a run other than being carried along in the
  state.
\<close>

theorem runAnalysis_request_ignores_snapshot:
  "manuscriptSnapshot (initial_state\<lparr>scratchpadText := ''Thorne the smith walked in.''\<rparr>)
     = ''Thorne the smith walked in.''
   \<and> manuscriptSnapshot (initial_state\<lparr>scratchpadText := ''Mira drew the harbour.''\<rparr>)
     = ''Mira drew the harbour.''
   \<and> issued (runAnalysis gw stringify parse (initial_state\<lparr>scratchpadText := ''Thorne the smith walked in.''\<rparr>))
     = issued (runAnalysis gw stringify parse (initial_state\<lparr>scratchpadText := ''Mira drew the harbour.''\<rparr>))
   \<and> runAnalysis gw stringify parse (s\<lparr>scratchpadText := t\<rparr>)
     = (runAnalysis gw stringify parse s)\<lparr>after := (after (runAnalysis gw stringify parse s))\<lparr>scratchpadText := t\<rparr>\<rparr>"
  by (simp add: manuscriptSnapshot_def runAnalysis_def analyzePlot_def initial_state_def Let_def
      split: sum.splits promise.splits parsed.splits)

text \<open>With chapters, the snapshot puts a title line before the drafts of each chapter.\<close>

lemma snapshot_example:
  "manuscriptSnapshot example_store = ''Chapter: Prologue'' @ NL @ ''It rained.''"
  by (simp add: manuscriptSnapshot_def example_store_def initial_state_def)

subsection \<open>Importing a file\<close>

text \<open>
  What a successful import does to the three collections in general: the characters and
  locations that were there stay in front, and the chapters are the extracted ones.
\<close>

lemma importExtracted_keeps_characters_locations:
  assumes "importExtracted rnd x s = Inr s'"
  shows "take (length (characters s)) (characters s') = characters s
       \<and> take (length (locations s)) (locations s') = locations s"
  using assms
  by (auto simp add: importExtracted_def Let_def split: option.splits sum.splits)

lemma rekey_chapters_titles:
  "rekey_chapters rnd k chs = Inr (chs', k') \<Longrightarrow> map ch_title chs' = map xc_title chs"
  by (induction chs arbitrary: k chs') (auto split: option.splits sum.splits)

lemma importExtracted_chapters_from_extraction:
  assumes "importExtracted rnd (Some ex) s = Inr s'" and "ex_chapters ex = Some chs"
  shows "map ch_title (chapters s') = map xc_title chs"
  using assms
  by (auto simp add: importExtracted_def Let_def rekey_chapters_titles split: option.splits sum.splits)

text \<open>
  C3: an import into a store with the chapter Prologue, the character Mira and the
  location Harbour, of an extraction with one chapter, one character and one location.
  The characters and locations are appended to; the chapters are replaced by the
  extracted ones, and an extraction with an empty list of chapters empties them.
\<close>

theorem importExtracted_drops_chapters:
  "map ch_title (chapters example_store) = [''Prologue'']
   \<and> thrown (handleFileUpload (\<lambda>_. Fulfilled \<lparr>rs_text = Some ''{}'', rs_inlineData = []\<rparr>)
        (\<lambda>_. JsonValue example_extraction) example_rnd (Some ''Thorne arrives at the forge.'')
        example_store) = None
   \<and> map ch_title (chapters (after (handleFileUpload
        (\<lambda>_. Fulfilled \<lparr>rs_text = Some ''{}'', rs_inlineData = []\<rparr>)
        (\<lambda>_. JsonValue example_extraction) example_rnd (Some ''Thorne arrives at the forge.'')
        example_store))) = [''The Forge'']
   \<and> map c_name (characters (after (handleFileUpload
        (\<lambda>_. Fulfilled \<lparr>rs_text = Some ''{}'', rs_inlineData = []\<rparr>)
        (\<lambda>_. JsonValue example_extraction) example_rnd (Some ''Thorne arrives at the forge.'')
        example_store))) = [''Mira'', ''Thorne'']
   \<and> map l_name (locations (after (handleFileUpload
        (\<lambda>_. Fulfilled \<lparr>rs_text = Some ''{}'', rs_inlineData = []\<rparr>)
        (\<lambda>_. JsonValue example_extraction) example_rnd (Some ''Thorne arrives at the forge.'')
        example_store))) = [''Harbour'', ''Forge'']
   \<and> chapters (after (handleFileUpload
        (\<lambda>_. Fulfilled \<lparr>rs_text = Some ''{}'', rs_inlineData = []\<rparr>)
        (\<lambda>_. JsonValue \<lparr>ex_chapters = Some [], ex_characters = None, ex_locations = None\<rparr>)
        example_rnd (Some ''Thorne arrives at the forge.'') example_store)) = []"
  by (simp add: handleFileUpload_def extractFromText_def importExtracted_def or_empty_object_def
      example_store_def example_extraction_def initial_state_def Let_def)

text \<open>
  C7 (amended): the ids of everything a successful import produces are among the ids
  that the \<^verbatim>\<open>Math.random()\<close> draws of that import can form with the prefixes ch-, b-,
  c- and l-; if none of those was an id of the store before the import, no produced id
  was present before.
\<close>

theorem importExtracted_fresh_if_draws_fresh:
  assumes "importExtracted rnd (Some ex) s = Inr s'"
  shows "set (imported_ids ex s s') \<subseteq> set (random_ids rnd (draws ex))
       \<and> (set (random_ids rnd (draws ex)) \<inter> set (all_ids s) = {} \<longrightarrow>
            set (imported_ids ex s s') \<inter> set (all_ids s) = {})"
  using importExtracted_ids[OF assms] by blast

lemma example_import:
  "importExtracted example_rnd (Some example_extraction) example_store =
     Inr (projr (importExtracted example_rnd (Some example_extraction) example_store))"
  by (simp add: importExtracted_def example_extraction_def Let_def)

lemma example_draws: "random_ids example_rnd (draws example_extraction) =
   [''ch-0.1'', ''b-0.1'', ''c-0.1'', ''l-0.1'', ''ch-0.2'', ''b-0.2'', ''c-0.2'', ''l-0.2'',
    ''ch-0.3'', ''b-0.3'', ''c-0.3'', ''l-0.3'', ''ch-0.4'', ''b-0.4'', ''c-0.4'', ''l-0.4'']"
  by (simp add: random_ids_def draws_def example_extraction_def example_rnd_def
      number_toString.simps digit_char_def upt_conv_Cons del: upt_Suc)

theorem importExtracted_fresh_if_draws_fresh_witness:
  "imported_ids example_extraction example_store
     (projr (importExtracted example_rnd (Some example_extraction) example_store))
     = [''ch-0.1'', ''b-0.2'', ''c-0.3'', ''l-0.4'']
   \<and> set (imported_ids example_extraction example_store
         (projr (importExtracted example_rnd (Some example_extraction) example_store)))
       \<inter> set (all_ids example_store) = {}"
proof -
  have f: "set (random_ids example_rnd (draws example_extraction)) \<inter> set (all_ids example_store) = {}"
    unfolding example_draws by (simp add: all_ids_def example_store_def initial_state_def)
  have v: "imported_ids example_extraction example_store
     (projr (importExtracted example_rnd (Some example_extraction) example_store))
     = [''ch-0.1'', ''b-0.2'', ''c-0.3'', ''l-0.4'']"
    by (simp add: imported_ids_def importExtracted_def example_extraction_def example_store_def
        initial_state_def example_rnd_def number_toString.simps digit_char_def Let_def)
  from importExtracted_fresh_if_draws_fresh[OF example_import] f v show ?thesis by simp
qed

text \<open>
  The claim as stated fails: a draw that repeats the one behind an id of the store
  gives the imported character that id.
\<close>

theorem importExtracted_reuses_id_counterexample:
  "all_ids (initial_state\<lparr>characters :=
       [\<lparr>c_id = ''c-0.5'', c_name = ''Mira'', c_role = ''Protagonist'',
         c_description = ''A cartographer'', c_traits = [], c_imageUrl = None,
         c_rationale = None\<rparr>]\<rparr>) = [''c-0.5'']
   \<and> map c_id (characters (after (handleFileUpload
        (\<lambda>_. Fulfilled \<lparr>rs_text = Some ''{}'', rs_inlineData = []\<rparr>)
        (\<lambda>_. JsonValue \<lparr>ex_chapters = None,
                          ex_characters = Some [\<lparr>xp_name = ''Thorne'', xp_role = ''Secondary'',
                                                  xp_description = ''A wandering smith''\<rparr>],
                          ex_locations = None\<rparr>)
        (\<lambda>_. ''0.5'')
        (Some ''Thorne walked in.'')
        (initial_state\<lparr>characters :=
           [\<lparr>c_id = ''c-0.5'', c_name = ''Mira'', c_role = ''Protagonist'',
             c_description = ''A cartographer'', c_traits = [], c_imageUrl = None,
             c_rationale = None\<rparr>]\<rparr>)))) = [''c-0.5'', ''c-0.5'']"
  by (simp add: all_ids_def handleFileUpload_def extractFromText_def importExtracted_def
      or_empty_object_def initial_state_def Let_def)

end
